theory Spec2Isabelle
  imports Complex_Main "HOL-Library.Word"
begin

section \<open>Python values: exceptions, floats, the request form\<close>

text \<open>
  The program is one Flask handler, \<open>process_audio\<close> in \<open>app.py\<close>, and two conversion
  helpers. Every exception the handler can raise is a value here; a computation returns
  \<open>error + 'a\<close>, with \<open>Inl\<close> for the exception. Both \<open>float('abc')\<close> and
  \<open>math.log10(0.0)\<close> raise Python's \<open>ValueError\<close>; the message tells them apart.
\<close>

datatype error =
    ValueError string
  | TypeError string
  | ZeroDivisionError
  | TooManyMissingFrames
  | LibraryError string

definition and_then :: "error + 'a \<Rightarrow> ('a \<Rightarrow> error + 'b) \<Rightarrow> error + 'b" where
  "and_then m f = (case m of Inl e \<Rightarrow> Inl e | Inr x \<Rightarrow> f x)"

text \<open>
  Python floats are modelled as reals. Rounding is not modelled, with one exception: the
  quotient \<open>x / 100.0\<close> of two doubles is \<open>0.0\<close> when its exact value is at most half
  the least subnormal \<open>2\<^sup>-\<^sup>1\<^sup>0\<^sup>7\<^sup>4\<close> in magnitude (round to nearest, ties to even). This is
  the only place where the program's rounding decides a comparison with zero, since its
  multiplications are by constants of magnitude at least one. Infinities and NaN are
  outside the model.
\<close>

definition fdiv :: "real \<Rightarrow> real \<Rightarrow> real" where
  "fdiv x y = (if \<bar>x / y\<bar> \<le> 1 / 2 ^ 1075 then 0 else x / y)"

text \<open>\<open>int(x)\<close> on a float truncates towards zero.\<close>

definition py_int :: "real \<Rightarrow> int" where
  "py_int x = (if 0 \<le> x then \<lfloor>x\<rfloor> else \<lceil>x\<rceil>)"

text \<open>\<open>math.log10\<close> raises on a non-positive argument.\<close>

definition math_log10 :: "real \<Rightarrow> error + real" where
  "math_log10 x = (if x \<le> 0 then Inl (ValueError ''math domain error'') else Inr (log 10 x))"

text \<open>
  \<open>request.form\<close> maps field names to the submitted strings. \<open>float\<close> is Python's
  builtin on strings, taken as a parameter \<open>flt\<close>: \<open>None\<close> where it raises
  \<open>ValueError\<close>. \<open>form_float flt frm key d\<close> is \<open>float(request.form.get(key, d))\<close>;
  the default \<open>d\<close> is a number, which \<open>float\<close> accepts.
\<close>

type_synonym form = "string \<rightharpoonup> string"

definition form_float :: "(string \<Rightarrow> real option) \<Rightarrow> form \<Rightarrow> string \<Rightarrow> real \<Rightarrow> error + real" where
  "form_float flt frm key d =
     (case frm key of
        None \<Rightarrow> Inr d
      | Some s \<Rightarrow>
          (case flt s of
             None \<Rightarrow> Inl (ValueError ''could not convert string to float'')
           | Some x \<Rightarrow> Inr x))"

text \<open>\<open>request.form.get(key) == 'true'\<close>\<close>

definition enabled :: "form \<Rightarrow> string \<Rightarrow> bool" where
  "enabled frm key \<longleftrightarrow> frm key = Some ''true''"

section \<open>Audio data\<close>

text \<open>
  \<open>audio_data\<close> is the planar float array of shape (channels, samples). An
  \<open>AudioSegment\<close> carries 16-bit samples; the record has the fields the constructor call
  in \<open>convert_numpy_to_audio\<close> sets.
\<close>

type_synonym audio_data = "real list list"
type_synonym sample = "16 word"

record audio_segment =
  pcm_data :: "sample list"
  sample_width :: nat
  frame_rate :: nat
  channels :: nat

text \<open>The Pedalboard plugins the program constructs, with their keyword arguments in
  the order of the source: cutoff and gain; threshold, ratio, (attack,) release.\<close>

datatype plugin =
    HighpassFilter real
  | LowpassFilter real
  | HighShelfFilter real real
  | LowShelfFilter real real
  | Distortion real
  | NoiseGate real real real
  | Compressor real real real real
  | Limiter real

text \<open>
  The libraries the handler calls are parameters: Python's \<open>float\<close>,
  \<open>noisereduce.reduce_noise\<close>, running a \<open>Pedalboard\<close>, and pydub's
  \<open>set_frame_rate\<close> and \<open>fade_out\<close>. Each may raise.
\<close>

record lib =
  py_float :: "string \<Rightarrow> real option"
  reduce_noise :: "audio_data \<Rightarrow> nat \<Rightarrow> real \<Rightarrow> error + audio_data"
  pedalboard :: "plugin list \<Rightarrow> audio_data \<Rightarrow> nat \<Rightarrow> error + audio_data"
  set_frame_rate :: "audio_segment \<Rightarrow> nat \<Rightarrow> error + audio_segment"
  fade_out :: "audio_segment \<Rightarrow> int \<Rightarrow> error + audio_segment"

section \<open>Stage 1: voice processing\<close>

text \<open>Step 3, noise reduction (lines 88--96).\<close>

definition noise_reduction :: "lib \<Rightarrow> form \<Rightarrow> audio_data \<Rightarrow> nat \<Rightarrow> error + audio_data" where
  "noise_reduction L frm audio_data sample_rate =
     (if enabled frm ''enable_nr'' then
        and_then (form_float (py_float L) frm ''val_nr'' 0) (\<lambda>x.
          let intensity = fdiv x 100 in
          if intensity > 0 then reduce_noise L audio_data sample_rate intensity
          else Inr audio_data)
      else Inr audio_data)"

text \<open>Step 4, the pedalboard rack (lines 99--121): each preset appends to
  \<open>board_modules\<close>.\<close>

definition add_vintage :: "lib \<Rightarrow> form \<Rightarrow> plugin list \<Rightarrow> error + plugin list" where
  "add_vintage L frm board_modules =
     (if enabled frm ''enable_vintage'' then
        and_then (form_float (py_float L) frm ''val_vintage'' 0) (\<lambda>x.
          let v_val = fdiv x 100;
              drive_db = 20 * v_val
          in Inr (board_modules @
                    [HighpassFilter (300 + 200 * v_val),
                     LowpassFilter (3500 - 2000 * v_val),
                     Distortion drive_db]))
      else Inr board_modules)"

definition add_mic :: "form \<Rightarrow> plugin list \<Rightarrow> plugin list" where
  "add_mic frm board_modules =
     (if enabled frm ''enable_mic'' then
        board_modules @ [HighpassFilter 80, HighShelfFilter 4000 3, LowShelfFilter 200 2]
      else board_modules)"

definition add_podcast :: "lib \<Rightarrow> form \<Rightarrow> plugin list \<Rightarrow> error + plugin list" where
  "add_podcast L frm board_modules =
     (if enabled frm ''enable_podcast'' then
        and_then (form_float (py_float L) frm ''val_podcast'' 0) (\<lambda>x.
          let p_val = fdiv x 100;
              ratio = 2 + 4 * p_val
          in Inr (board_modules @
                    [NoiseGate (-40) 4 200,
                     Compressor (-16) ratio 1 100,
                     Limiter (-1)]))
      else Inr board_modules)"

definition pedalboard_rack :: "lib \<Rightarrow> form \<Rightarrow> error + plugin list" where
  "pedalboard_rack L frm =
     and_then (add_vintage L frm []) (\<lambda>b1.
       add_podcast L frm (add_mic frm b1))"

text \<open>Apply effects (lines 124--128): an empty rack leaves \<open>audio_data\<close> as it is.\<close>

definition apply_effects :: "lib \<Rightarrow> plugin list \<Rightarrow> audio_data \<Rightarrow> nat \<Rightarrow> error + audio_data" where
  "apply_effects L board_modules audio_data sample_rate =
     (if board_modules \<noteq> [] then pedalboard L board_modules audio_data sample_rate
      else Inr audio_data)"

text \<open>Lines 87--128 together: from the decoded \<open>audio_data\<close> to \<open>processed_data\<close>.\<close>

definition process_voice :: "lib \<Rightarrow> form \<Rightarrow> audio_data \<Rightarrow> nat \<Rightarrow> error + audio_data" where
  "process_voice L frm audio_data sample_rate =
     and_then (noise_reduction L frm audio_data sample_rate) (\<lambda>denoised.
       and_then (pedalboard_rack L frm) (\<lambda>board_modules.
         apply_effects L board_modules denoised sample_rate))"

section \<open>PCM conversion\<close>

text \<open>
  \<open>convert_audio_to_numpy\<close> (lines 26--37): one array per channel, divided by the
  largest value of the sample type, \<open>32767\<close> for 16-bit samples. Channel \<open>c\<close> of an
  interleaved segment holds the samples at positions \<open>c\<close>, \<open>c + channels\<close>, ...
\<close>

definition split_to_mono :: "audio_segment \<Rightarrow> sample list list" where
  "split_to_mono seg =
     map (\<lambda>c. map (\<lambda>i. pcm_data seg ! (i * channels seg + c))
                 [0 ..< length (pcm_data seg) div channels seg])
         [0 ..< channels seg]"

definition convert_audio_to_numpy :: "audio_segment \<Rightarrow> audio_data \<times> nat" where
  "convert_audio_to_numpy seg =
     (map (map (\<lambda>s. real_of_int (sint s) / 32767)) (split_to_mono seg), frame_rate seg)"

text \<open>
  \<open>convert_numpy_to_audio\<close> (lines 39--59). \<open>np.clip(data, -1.0, 1.0)\<close> is
  \<open>minimum(1.0, maximum(data, -1.0))\<close>; \<open>astype(np.int16)\<close> truncates towards zero
  and keeps the low 16 bits of a value outside the range, which \<open>word_of_int\<close> writes
  out. For two rows, \<open>pcm_data.T.flatten()\<close> alternates the rows' samples; otherwise
  \<open>flatten()\<close> joins the rows one after the other.
\<close>

definition np_clip :: "real \<Rightarrow> real" where
  "np_clip x = min 1 (max (- 1) x)"

definition astype_int16 :: "real \<Rightarrow> sample" where
  "astype_int16 x = word_of_int (py_int x)"

definition transpose_flatten :: "'a list \<Rightarrow> 'a list \<Rightarrow> 'a list" where
  "transpose_flatten left right = concat (map (\<lambda>(l, r). [l, r]) (zip left right))"

definition convert_numpy_to_audio :: "audio_data \<Rightarrow> nat \<Rightarrow> audio_segment" where
  "convert_numpy_to_audio data sample_rate =
     (let clipped = map (map np_clip) data;
          pcm = map (map (\<lambda>x. astype_int16 (x * 32767))) clipped
      in if length pcm = 2 then
           \<lparr>pcm_data = transpose_flatten (pcm ! 0) (pcm ! 1), sample_width = 2,
            frame_rate = sample_rate, channels = 2\<rparr>
         else
           \<lparr>pcm_data = concat pcm, sample_width = 2,
            frame_rate = sample_rate, channels = 1\<rparr>)"

section \<open>The pydub operations of the mixing stage\<close>

text \<open>
  pydub measures \<open>len(seg)\<close> and slice positions in milliseconds. The mixing stage is
  modelled at that resolution: the \<open>pcm_data\<close> of a segment in this stage holds one
  frame per millisecond and one 16-bit sample per frame (a mono segment at 1000 frames
  per second), so that \<open>len\<close> is the length of the list and a position in milliseconds
  is a position in the list. What pydub does below one millisecond, and its conversion
  between channel layouts and sample widths, is outside the model.
\<close>

definition seg_len :: "audio_segment \<Rightarrow> nat" where
  "seg_len seg = length (pcm_data seg)"

text \<open>Python's \<open>data[i:j]\<close>: a negative index counts from the end, and both are
  cut to the sequence.\<close>

definition py_slice :: "'a list \<Rightarrow> int \<Rightarrow> int \<Rightarrow> 'a list" where
  "py_slice xs i j =
     (let n = int (length xs);
          i' = (if i < 0 then max 0 (i + n) else min i n);
          j' = (if j < 0 then max 0 (j + n) else min j n)
      in drop (nat i') (take (nat j') xs))"

text \<open>
  \<open>seg[start:stop]\<close>, pydub's \<open>__getitem__\<close> on a slice without step: a missing bound
  is the segment's start or end, a negative bound has \<open>len(seg)\<close> added, both are cut
  to \<open>len(seg)\<close> and truncated to whole frames by \<open>_parse_position\<close>; frames the
  result lacks against \<open>stop - start\<close> are filled with silence, up to two of them.
\<close>

definition parse_position :: "nat \<Rightarrow> real \<Rightarrow> int" where
  "parse_position n val = py_int (if val < 0 then real n - \<bar>val\<bar> else val)"

definition seg_slice :: "audio_segment \<Rightarrow> real option \<Rightarrow> real option \<Rightarrow> error + audio_segment" where
  "seg_slice seg start stop =
     (let n = seg_len seg;
          s0 = (case start of None \<Rightarrow> 0 | Some s \<Rightarrow> s);
          e0 = (case stop of None \<Rightarrow> real n | Some e \<Rightarrow> e);
          s1 = (if s0 < 0 then s0 + real n else s0);
          e1 = (if e0 < 0 then e0 + real n else e0);
          s = parse_position n (min s1 (real n));
          e = parse_position n (min e1 (real n));
          data = py_slice (pcm_data seg) s e;
          missing_frames = (e - s) - int (length data)
      in if missing_frames \<noteq> 0 \<and> missing_frames > 2 then Inl TooManyMissingFrames
         else Inr (seg\<lparr>pcm_data := data @ replicate (nat missing_frames) 0\<rparr>))"

text \<open>\<open>seg * n\<close> repeats the data.\<close>

definition seg_repeat :: "audio_segment \<Rightarrow> int \<Rightarrow> audio_segment" where
  "seg_repeat seg n = seg\<lparr>pcm_data := concat (replicate (nat n) (pcm_data seg))\<rparr>"

text \<open>
  \<open>seg + db\<close> and \<open>seg - db\<close> are \<open>apply_gain(db)\<close> and \<open>apply_gain(-db)\<close>:
  \<open>audioop.mul\<close> by \<open>10 ** (db / 20)\<close>, which bounds each product to the 16-bit range
  and rounds it down.
\<close>

definition fbound :: "real \<Rightarrow> int" where
  "fbound v = \<lfloor>if v > 32767 then 32767 else if v < - 32768 + 1 then - 32768 else v\<rfloor>"

definition audioop_mul :: "real \<Rightarrow> sample \<Rightarrow> sample" where
  "audioop_mul factor s = word_of_int (fbound (real_of_int (sint s) * factor))"

definition apply_gain :: "audio_segment \<Rightarrow> real \<Rightarrow> audio_segment" where
  "apply_gain seg db = seg\<lparr>pcm_data := map (audioop_mul (10 powr (db / 20))) (pcm_data seg)\<rparr>"

text \<open>
  \<open>seg1.overlay(seg2, position=0)\<close>: \<open>seg2\<close> is cut to what is left of \<open>seg1\<close>,
  \<open>audioop.add\<close> sums the two sample by sample, bounding each sum to the 16-bit range,
  and the rest of \<open>seg1\<close> follows unchanged.
\<close>

definition audioop_add :: "sample \<Rightarrow> sample \<Rightarrow> sample" where
  "audioop_add a b = word_of_int (max (- 32768) (min 32767 (sint a + sint b)))"

definition overlay :: "audio_segment \<Rightarrow> audio_segment \<Rightarrow> audio_segment" where
  "overlay seg1 seg2 =
     (let d1 = pcm_data seg1;
          d2 = take (length d1) (pcm_data seg2)
      in seg1\<lparr>pcm_data := map2 audioop_add (take (length d2) d1) d2 @ drop (length d2) d1\<rparr>)"

section \<open>Stage 2: background music mixing\<close>

text \<open>
  \<open>try: ... except (ValueError, TypeError): fallback\<close> around a computation: the two
  named exceptions give the fallback, any other passes through.
\<close>

definition except_value_type :: "error + 'a \<Rightarrow> 'a \<Rightarrow> error + 'a" where
  "except_value_type m fallback =
     (case m of
        Inr x \<Rightarrow> Inr x
      | Inl (ValueError msg) \<Rightarrow> Inr fallback
      | Inl (TypeError msg) \<Rightarrow> Inr fallback
      | Inl e \<Rightarrow> Inl e)"

text \<open>Match frame rate (lines 144--145).\<close>

definition match_frame_rate :: "lib \<Rightarrow> audio_segment \<Rightarrow> audio_segment \<Rightarrow> error + audio_segment" where
  "match_frame_rate L music_seg processed_voice_seg =
     (if frame_rate music_seg \<noteq> frame_rate processed_voice_seg
      then set_frame_rate L music_seg (frame_rate processed_voice_seg)
      else Inr music_seg)"

text \<open>2A, trim and loop (lines 148--167).\<close>

definition trim_params :: "lib \<Rightarrow> form \<Rightarrow> error + real \<times> real" where
  "trim_params L frm =
     except_value_type
       (and_then (form_float (py_float L) frm ''bg_start'' 0) (\<lambda>start_sec.
          and_then (form_float (py_float L) frm ''bg_end'' 0) (\<lambda>end_sec.
            Inr (start_sec, end_sec))))
       (0, 0)"

definition cut_selection :: "audio_segment \<Rightarrow> real \<Rightarrow> real \<Rightarrow> error + audio_segment" where
  "cut_selection music_seg start_sec end_sec =
     (if end_sec > 0 \<and> end_sec > start_sec
      then seg_slice music_seg (Some (start_sec * 1000)) (Some (end_sec * 1000))
      else seg_slice music_seg (Some (start_sec * 1000)) None)"

definition trim_music :: "lib \<Rightarrow> form \<Rightarrow> audio_segment \<Rightarrow> error + audio_segment" where
  "trim_music L frm music_seg =
     and_then (trim_params L frm) (\<lambda>(start_sec, end_sec).
       cut_selection music_seg start_sec end_sec)"

text \<open>\<open>len(a) / len(b)\<close> is true division of two integers: it raises when the
  divisor is zero.\<close>

definition true_div :: "nat \<Rightarrow> nat \<Rightarrow> error + real" where
  "true_div a b = (if b = 0 then Inl ZeroDivisionError else Inr (real a / real b))"

definition loop_to_cover :: "audio_segment \<Rightarrow> audio_segment \<Rightarrow> error + audio_segment" where
  "loop_to_cover music_seg processed_voice_seg =
     (if seg_len music_seg < seg_len processed_voice_seg then
        and_then (true_div (seg_len processed_voice_seg) (seg_len music_seg)) (\<lambda>q.
          let loops = py_int q + 1 in Inr (seg_repeat music_seg loops))
      else Inr music_seg)"

definition trim_to_voice :: "audio_segment \<Rightarrow> audio_segment \<Rightarrow> error + audio_segment" where
  "trim_to_voice music_seg processed_voice_seg =
     seg_slice music_seg None (Some (real (seg_len processed_voice_seg)))"

text \<open>2B, volume (lines 170--175).\<close>

definition volume :: "lib \<Rightarrow> form \<Rightarrow> audio_segment \<Rightarrow> error + audio_segment" where
  "volume L frm music_seg =
     and_then (form_float (py_float L) frm ''bg_vol'' 20) (\<lambda>bg_vol_percent.
       if bg_vol_percent \<le> 0 then Inr (apply_gain music_seg (- 100))
       else and_then (math_log10 (fdiv bg_vol_percent 100)) (\<lambda>l.
              let gain_db = 20 * l in Inr (apply_gain music_seg gain_db)))"

text \<open>2C, fade out (lines 178--199).\<close>

definition fade_params :: "lib \<Rightarrow> form \<Rightarrow> error + real \<times> real" where
  "fade_params L frm =
     except_value_type
       (and_then (form_float (py_float L) frm ''bg_fade_start'' 0) (\<lambda>fade_start_sec.
          and_then (form_float (py_float L) frm ''bg_fade_len'' 3) (\<lambda>fade_len_sec.
            Inr (fade_start_sec, fade_len_sec))))
       (0, 3)"

definition fade_out_logic :: "lib \<Rightarrow> audio_segment \<Rightarrow> real \<Rightarrow> real \<Rightarrow> error + audio_segment" where
  "fade_out_logic L music_seg fade_start_sec fade_len_sec =
     (if fade_start_sec > 0 then
        let fade_start_ms = fade_start_sec * 1000;
            fade_len_ms = fade_len_sec * 1000;
            total_duration_ms = fade_start_ms + fade_len_ms
        in if total_duration_ms < real (seg_len music_seg) then
             and_then (seg_slice music_seg None (Some (real_of_int (py_int total_duration_ms))))
               (\<lambda>cut. fade_out L cut (py_int fade_len_ms))
           else fade_out L music_seg (py_int fade_len_ms)
      else Inr music_seg)"

definition fade_music :: "lib \<Rightarrow> form \<Rightarrow> audio_segment \<Rightarrow> error + audio_segment" where
  "fade_music L frm music_seg =
     and_then (fade_params L frm) (\<lambda>(fade_start_sec, fade_len_sec).
       fade_out_logic L music_seg fade_start_sec fade_len_sec)"

text \<open>Lines 144--202: the music bed is prepared and laid over the voice.\<close>

definition prepare_music :: "lib \<Rightarrow> form \<Rightarrow> audio_segment \<Rightarrow> audio_segment \<Rightarrow> error + audio_segment" where
  "prepare_music L frm processed_voice_seg music_seg0 =
     and_then (match_frame_rate L music_seg0 processed_voice_seg) (\<lambda>music_seg1.
     and_then (trim_music L frm music_seg1) (\<lambda>music_seg2.
     and_then (loop_to_cover music_seg2 processed_voice_seg) (\<lambda>music_seg3.
     and_then (trim_to_voice music_seg3 processed_voice_seg) (\<lambda>music_seg4.
     and_then (volume L frm music_seg4) (\<lambda>music_seg5.
       fade_music L frm music_seg5)))))"

definition mix_background :: "lib \<Rightarrow> form \<Rightarrow> audio_segment \<Rightarrow> audio_segment \<Rightarrow> error + audio_segment" where
  "mix_background L frm processed_voice_seg music_seg0 =
     and_then (prepare_music L frm processed_voice_seg music_seg0) (\<lambda>music_seg.
       Inr (overlay processed_voice_seg music_seg))"

section \<open>The handler\<close>

text \<open>
  An uploaded file is its name and what \<open>AudioSegment.from_file\<close> makes of it: a
  segment, or the exception the decoder raises. The response is the 400 of a missing
  upload, the 500 of the handler's outer \<open>except Exception\<close>, or the mix handed to the
  MP3 export.
\<close>

record upload =
  filename :: string
  from_file :: "error + audio_segment"

record request =
  form_of :: form
  audio_file :: "upload option"
  bg_file :: "upload option"

datatype response =
    Status400 string
  | Status500 error
  | Mp3 audio_segment

text \<open>Lines 131--204, from \<open>processed_data\<close> to \<open>final_output\<close>.\<close>

definition encode_and_mix :: "lib \<Rightarrow> request \<Rightarrow> audio_data \<Rightarrow> nat \<Rightarrow> error + audio_segment" where
  "encode_and_mix L req processed_data sample_rate =
     (let processed_voice_seg = convert_numpy_to_audio processed_data sample_rate in
      case bg_file req of
        None \<Rightarrow> Inr processed_voice_seg
      | Some bg \<Rightarrow>
          if filename bg \<noteq> [] then
            and_then (from_file bg) (\<lambda>music_seg.
              mix_background L (form_of req) processed_voice_seg music_seg)
          else Inr processed_voice_seg)"

text \<open>The body of the \<open>try\<close> (lines 82--218).\<close>

definition try_body :: "lib \<Rightarrow> request \<Rightarrow> upload \<Rightarrow> error + audio_segment" where
  "try_body L req voice_file =
     and_then (from_file voice_file) (\<lambda>original_voice.
       let (audio_data, sample_rate) = convert_audio_to_numpy original_voice in
       and_then (process_voice L (form_of req) audio_data sample_rate) (\<lambda>processed_data.
         encode_and_mix L req processed_data sample_rate))"

definition process_audio :: "lib \<Rightarrow> request \<Rightarrow> response" where
  "process_audio L req =
     (case audio_file req of
        None \<Rightarrow> Status400 ''No file uploaded''
      | Some voice_file \<Rightarrow>
          if filename voice_file = [] then Status400 ''No selected file''
          else (case try_body L req voice_file of
                  Inl e \<Rightarrow> Status500 e
                | Inr final_output \<Rightarrow> Mp3 final_output))"

section \<open>Example inputs\<close>

text \<open>
  Concrete libraries and requests for the examples below. \<open>example_float\<close> is
  \<open>float\<close> on the strings the examples submit; \<open>float\<close> rejects \<open>'abc'\<close>, which the
  table lacks, and \<open>float('1e-322')\<close> is the subnormal double \<open>20 / 2 ^ 1074\<close>. The
  stand-ins for noise reduction and the effects return their input, the one for
  \<open>set_frame_rate\<close> only sets the rate, and the one for \<open>fade_out\<close> silences the last
  \<open>duration\<close> frames at once instead of ramping down to them.
\<close>

definition example_float :: "string \<Rightarrow> real option" where
  "example_float =
     map_of [(''0'', 0), (''0.001'', 1 / 1000), (''0.002'', 2 / 1000), (''0.003'', 3 / 1000),
             (''0.004'', 4 / 1000), (''1'', 1), (''3'', 3), (''20'', 20), (''50'', 50),
             (''100'', 100), (''1e-322'', 20 / 2 ^ 1074)]"

definition example_lib :: lib where
  "example_lib =
     \<lparr>py_float = example_float,
      reduce_noise = (\<lambda>audio_data sample_rate prop_decrease. Inr audio_data),
      pedalboard = (\<lambda>board_modules audio_data sample_rate. Inr audio_data),
      set_frame_rate = (\<lambda>seg rate. Inr (seg\<lparr>frame_rate := rate\<rparr>)),
      fade_out = (\<lambda>seg duration. Inr (seg\<lparr>pcm_data :=
                   take (length (pcm_data seg) - nat duration) (pcm_data seg) @
                   replicate (min (nat duration) (length (pcm_data seg))) 0\<rparr>))\<rparr>"

definition mono :: "sample list \<Rightarrow> audio_segment" where
  "mono d = \<lparr>pcm_data = d, sample_width = 2, frame_rate = 1000, channels = 1\<rparr>"

definition voice_upload :: upload where
  "voice_upload = \<lparr>filename = ''voice.wav'', from_file = Inr (mono [16384, 0, - 16384])\<rparr>"


definition plain_request :: request where
  "plain_request =
     \<lparr>form_of = [''enable_nr'' \<mapsto> ''false'', ''val_nr'' \<mapsto> ''50''],
      audio_file = Some voice_upload, bg_file = None\<rparr>"







definition nr_junk_request :: request where
  "nr_junk_request =
     \<lparr>form_of = [''enable_nr'' \<mapsto> ''true'', ''val_nr'' \<mapsto> ''abc''],
      audio_file = Some voice_upload, bg_file = None\<rparr>"

definition music_upload :: upload where
  "music_upload = \<lparr>filename = ''music.mp3'', from_file = Inr (mono [1, 2])\<rparr>"

definition past_end_request :: request where
  "past_end_request =
     \<lparr>form_of = [''bg_start'' \<mapsto> ''0.002''],
      audio_file = Some voice_upload, bg_file = Some music_upload\<rparr>"




definition underflow_request :: request where
  "underflow_request =
     \<lparr>form_of = [''bg_vol'' \<mapsto> ''1e-322''],
      audio_file = Some voice_upload, bg_file = Some music_upload\<rparr>"

section \<open>The pipeline of the specification\<close>

text \<open>
  The order of the specification's words, for a mono voice and a music bed of the same
  length: the music is summed into the float voice, and the sum is clipped once, when it
  is encoded.
\<close>

definition mix_then_encode :: "real list \<Rightarrow> sample list \<Rightarrow> nat \<Rightarrow> audio_segment" where
  "mix_then_encode voice music sample_rate =
     convert_numpy_to_audio
       [map2 (+) voice (map (\<lambda>s. real_of_int (sint s) / 32767) music)] sample_rate"

section \<open>More example inputs\<close>

definition loud_music_upload :: upload where
  "loud_music_upload = \<lparr>filename = ''music.mp3'', from_file = Inr (mono [- 16384])\<rparr>"

definition full_volume_request :: request where
  "full_volume_request =
     \<lparr>form_of = [''bg_vol'' \<mapsto> ''100''],
      audio_file = Some voice_upload, bg_file = Some loud_music_upload\<rparr>"

section \<open>The effect chain\<close>

lemma and_then_Inr [simp]: "and_then (Inr x) f = f x"
  by (simp add: and_then_def)

lemma and_then_Inl [simp]: "and_then (Inl e) f = Inl e"
  by (simp add: and_then_def)



lemma pedalboard_rack_off:
  assumes "\<not> enabled frm ''enable_vintage''" "\<not> enabled frm ''enable_mic''"
    "\<not> enabled frm ''enable_podcast''"
  shows "pedalboard_rack L frm = Inr []"
  using assms by (simp add: pedalboard_rack_def add_vintage_def add_mic_def add_podcast_def)

lemma process_voice_off:
  assumes "\<not> enabled frm ''enable_nr''" "\<not> enabled frm ''enable_vintage''"
    "\<not> enabled frm ''enable_mic''" "\<not> enabled frm ''enable_podcast''"
  shows "process_voice L frm audio_data sample_rate = Inr audio_data"
  using assms
  by (simp add: process_voice_def noise_reduction_def pedalboard_rack_off apply_effects_def)

text \<open>
  Claim C2. With noise reduction and the three presets off, the rack is empty and voice
  processing returns the buffer it was given, unchanged; with no background file the
  response is then the decoded voice put through \<open>convert_numpy_to_audio\<close> and nothing
  else.
\<close>

theorem passthrough_without_effects:
  assumes "\<not> enabled (form_of req) ''enable_nr''"
    and "\<not> enabled (form_of req) ''enable_vintage''"
    and "\<not> enabled (form_of req) ''enable_mic''"
    and "\<not> enabled (form_of req) ''enable_podcast''"
  shows "pedalboard_rack L (form_of req) = Inr [] \<and>
         process_voice L (form_of req) audio_data sample_rate = Inr audio_data \<and>
         (audio_file req = Some voice_file \<and> filename voice_file \<noteq> [] \<and>
          from_file voice_file = Inr original_voice \<and> bg_file req = None \<longrightarrow>
            process_audio L req =
              Mp3 (convert_numpy_to_audio (fst (convert_audio_to_numpy original_voice))
                     (frame_rate original_voice)))"
  using assms
  by (auto simp add: pedalboard_rack_off process_voice_off process_audio_def try_body_def
      encode_and_mix_def convert_audio_to_numpy_def)

theorem passthrough_without_effects_witness:
  "\<not> enabled (form_of plain_request) ''enable_nr'' \<and>
   \<not> enabled (form_of plain_request) ''enable_vintage'' \<and>
   \<not> enabled (form_of plain_request) ''enable_mic'' \<and>
   \<not> enabled (form_of plain_request) ''enable_podcast'' \<and>
   audio_file plain_request = Some voice_upload \<and> filename voice_upload \<noteq> [] \<and>
   from_file voice_upload = Inr (mono [16384, 0, - 16384]) \<and> bg_file plain_request = None \<and>
   process_voice example_lib (form_of plain_request) [[1 / 2, 0, - 1 / 2]] 1000 =
     Inr [[1 / 2, 0, - 1 / 2]] \<and>
   process_audio example_lib plain_request =
     Mp3 (convert_numpy_to_audio (fst (convert_audio_to_numpy (mono [16384, 0, - 16384]))) 1000)"
proof -
  have off: "\<not> enabled (form_of plain_request) ''enable_nr''"
    "\<not> enabled (form_of plain_request) ''enable_vintage''"
    "\<not> enabled (form_of plain_request) ''enable_mic''"
    "\<not> enabled (form_of plain_request) ''enable_podcast''"
    by (simp_all add: plain_request_def enabled_def)
  have up: "audio_file plain_request = Some voice_upload" "filename voice_upload \<noteq> []"
    "from_file voice_upload = Inr (mono [16384, 0, - 16384])" "bg_file plain_request = None"
    by (simp_all add: plain_request_def voice_upload_def)
  have fr: "frame_rate (mono [16384, 0, - 16384]) = 1000"
    by (simp add: mono_def)
  show ?thesis
    using passthrough_without_effects [OF off, of example_lib "[[1 / 2, 0, - 1 / 2]]" 1000
        voice_upload "mono [16384, 0, - 16384]"] off up fr
    by simp
qed

section \<open>Slicing, trimming and looping\<close>


lemma floor_min_nat: "\<lfloor>min x (real n)\<rfloor> = min \<lfloor>x\<rfloor> (int n)"
  by (simp add: min_def floor_le_iff le_floor_iff) linarith

lemma parse_position_cut:
  "0 \<le> x \<Longrightarrow> parse_position n (min x (real n)) = min \<lfloor>x\<rfloor> (int n)"
proof -
  assume "0 \<le> x"
  then have a: "\<not> min x (real n) < 0" and b: "0 \<le> min x (real n)" by simp_all
  show ?thesis
    unfolding parse_position_def py_int_def if_not_P [OF a] if_P [OF b] by (rule floor_min_nat)
qed

lemma py_slice_nonneg:
  "0 \<le> i \<Longrightarrow> 0 \<le> j \<Longrightarrow> py_slice xs i j = drop (nat i) (take (nat j) xs)"
  by (auto simp add: py_slice_def Let_def min_def)

lemma seg_slice_nonneg:
  assumes "0 \<le> a" "0 \<le> b"
  shows "seg_slice seg (Some a) (Some b) =
           Inr (seg\<lparr>pcm_data := drop (nat \<lfloor>a\<rfloor>) (take (nat \<lfloor>b\<rfloor>) (pcm_data seg))\<rparr>)"
proof -
  let ?d = "pcm_data seg"
  let ?n = "length ?d"
  let ?s = "min \<lfloor>a\<rfloor> (int ?n)"
  let ?e = "min \<lfloor>b\<rfloor> (int ?n)"
  have s0: "0 \<le> ?s" and e0: "0 \<le> ?e" using assms by simp_all
  have data: "py_slice ?d ?s ?e = drop (nat \<lfloor>a\<rfloor>) (take (nat \<lfloor>b\<rfloor>) ?d)"
  proof -
    have "py_slice ?d ?s ?e = drop (nat ?s) (take (nat ?e) ?d)"
      using s0 e0 by (rule py_slice_nonneg)
    also have "take (nat ?e) ?d = take (nat \<lfloor>b\<rfloor>) ?d"
      by (simp add: min_def)
    also have "drop (nat ?s) (take (nat \<lfloor>b\<rfloor>) ?d) = drop (nat \<lfloor>a\<rfloor>) (take (nat \<lfloor>b\<rfloor>) ?d)"
      by (auto simp add: min_def)
    finally show ?thesis .
  qed
  have len: "int (length (drop (nat \<lfloor>a\<rfloor>) (take (nat \<lfloor>b\<rfloor>) ?d))) = max 0 (?e - ?s)"
  proof -
    have "0 \<le> \<lfloor>a\<rfloor>" "0 \<le> \<lfloor>b\<rfloor>" using assms by simp_all
    then show ?thesis by (simp add: min_def max_def) linarith
  qed
  have miss: "?e - ?s - int (length (drop (nat \<lfloor>a\<rfloor>) (take (nat \<lfloor>b\<rfloor>) ?d))) \<le> 0"
    unfolding len by simp
  show ?thesis
    using assms miss
    by (simp add: seg_slice_def seg_len_def Let_def parse_position_cut data)
qed

lemma seg_slice_from:
  assumes "0 \<le> a"
  shows "seg_slice seg (Some a) None = Inr (seg\<lparr>pcm_data := drop (nat \<lfloor>a\<rfloor>) (pcm_data seg)\<rparr>)"
proof -
  have "seg_slice seg (Some a) None = seg_slice seg (Some a) (Some (real (seg_len seg)))"
    by (simp add: seg_slice_def Let_def)
  also have "\<dots> = Inr (seg\<lparr>pcm_data := drop (nat \<lfloor>a\<rfloor>) (take (nat \<lfloor>real (seg_len seg)\<rfloor>) (pcm_data seg))\<rparr>)"
    using assms by (intro seg_slice_nonneg) simp_all
  finally show ?thesis by (simp add: seg_len_def)
qed

lemma seg_slice_to:
  assumes "0 \<le> b"
  shows "seg_slice seg None (Some b) = Inr (seg\<lparr>pcm_data := take (nat \<lfloor>b\<rfloor>) (pcm_data seg)\<rparr>)"
proof -
  have "seg_slice seg None (Some b) = seg_slice seg (Some 0) (Some b)"
    by (simp add: seg_slice_def Let_def)
  then show ?thesis using assms by (simp add: seg_slice_nonneg)
qed

lemma seg_slice_whole: "seg_slice seg (Some 0) None = Inr seg"
  by (simp add: seg_slice_from)

lemma form_float_bad:
  "frm key = Some t \<Longrightarrow> flt t = None \<Longrightarrow>
   form_float flt frm key d = Inl (ValueError ''could not convert string to float'')"
  by (simp add: form_float_def)

lemma trim_params_ok:
  "form_float (py_float L) frm ''bg_start'' 0 = Inr s \<Longrightarrow>
   form_float (py_float L) frm ''bg_end'' 0 = Inr e \<Longrightarrow> trim_params L frm = Inr (s, e)"
  by (simp add: trim_params_def except_value_type_def)















section \<open>Parameter parsing\<close>

lemma noise_reduction_bad:
  assumes "enabled frm ''enable_nr''" "frm ''val_nr'' = Some t" "py_float L t = None"
  shows "noise_reduction L frm audio_data sample_rate =
           Inl (ValueError ''could not convert string to float'')"
  using assms by (simp add: noise_reduction_def form_float_bad)

lemma add_vintage_bad:
  assumes "enabled frm ''enable_vintage''" "frm ''val_vintage'' = Some t" "py_float L t = None"
  shows "add_vintage L frm board_modules = Inl (ValueError ''could not convert string to float'')"
  using assms by (simp add: add_vintage_def form_float_bad)

lemma add_podcast_bad:
  assumes "enabled frm ''enable_podcast''" "frm ''val_podcast'' = Some t" "py_float L t = None"
  shows "add_podcast L frm board_modules = Inl (ValueError ''could not convert string to float'')"
  using assms by (simp add: add_podcast_def form_float_bad)

lemma volume_bad:
  assumes "frm ''bg_vol'' = Some t" "py_float L t = None"
  shows "volume L frm music_seg = Inl (ValueError ''could not convert string to float'')"
  using assms by (simp add: volume_def form_float_bad)

text \<open>
  Claim C1. Parsing does not recover from every non-numeric parameter: the intensity of
  the noise reduction is parsed outside any local handler. With noise reduction enabled
  and a \<open>val_nr\<close> that \<open>float\<close> rejects, the \<open>ValueError\<close> reaches the outer handler
  and the request ends with status 500. The lemmas above show the same exception leaving
  the parsing of \<open>val_vintage\<close>, \<open>val_podcast\<close> and \<open>bg_vol\<close>.
\<close>

theorem non_numeric_intensity_aborts:
  assumes "audio_file req = Some voice_file" and "filename voice_file \<noteq> []"
    and "from_file voice_file = Inr original_voice"
    and "enabled (form_of req) ''enable_nr''"
    and "form_of req ''val_nr'' = Some t" and "py_float L t = None"
  shows "process_audio L req = Status500 (ValueError ''could not convert string to float'')"
  using assms
  by (simp add: process_audio_def try_body_def process_voice_def noise_reduction_bad
      split: prod.splits)

theorem non_numeric_intensity_aborts_witness:
  "audio_file nr_junk_request = Some voice_upload \<and> filename voice_upload \<noteq> [] \<and>
   from_file voice_upload = Inr (mono [16384, 0, - 16384]) \<and>
   enabled (form_of nr_junk_request) ''enable_nr'' \<and>
   form_of nr_junk_request ''val_nr'' = Some ''abc'' \<and> py_float example_lib ''abc'' = None \<and>
   process_audio example_lib nr_junk_request =
     Status500 (ValueError ''could not convert string to float'')"
proof -
  have h: "audio_file nr_junk_request = Some voice_upload" "filename voice_upload \<noteq> []"
    "from_file voice_upload = Inr (mono [16384, 0, - 16384])"
    "enabled (form_of nr_junk_request) ''enable_nr''"
    "form_of nr_junk_request ''val_nr'' = Some ''abc''" "py_float example_lib ''abc'' = None"
    by (simp_all add: nr_junk_request_def voice_upload_def enabled_def example_lib_def
        example_float_def)
  show ?thesis
    using non_numeric_intensity_aborts [OF h] h by simp
qed

section \<open>An empty trimmed track\<close>

lemma cut_selection_past_end:
  assumes "real (seg_len music_seg) \<le> s * 1000"
  shows "cut_selection music_seg s e = Inr (music_seg\<lparr>pcm_data := []\<rparr>)"
proof -
  have s0: "0 \<le> s * 1000" using assms by (meson of_nat_0_le_iff order_trans)
  have "int (seg_len music_seg) \<le> \<lfloor>s * 1000\<rfloor>"
    using assms by (simp add: le_floor_iff)
  then have big: "length (pcm_data music_seg) \<le> nat \<lfloor>s * 1000\<rfloor>"
    by (simp add: seg_len_def le_nat_iff)
  show ?thesis
  proof (cases "e > 0 \<and> e > s")
    case True
    then have "0 \<le> e * 1000" by simp
    with s0 True big show ?thesis
      by (simp add: cut_selection_def seg_slice_nonneg)
  next
    case False
    with s0 big show ?thesis
      by (auto simp add: cut_selection_def seg_slice_from)
  qed
qed

lemma loop_to_cover_empty:
  assumes "seg_len music_seg = 0" "0 < seg_len voice"
  shows "loop_to_cover music_seg voice = Inl ZeroDivisionError"
  using assms by (simp add: loop_to_cover_def true_div_def)

lemma frame_rate_convert [simp]: "frame_rate (convert_numpy_to_audio data sample_rate) = sample_rate"
  by (simp add: convert_numpy_to_audio_def Let_def)

text \<open>
  Claim C10. When a background track is supplied and the numeric trim start lies at or
  past the end of the track, the trimmed segment is empty; if the voice is not empty,
  the loop count divides the voice length by zero, and the \<open>ZeroDivisionError\<close> ends the
  request with status 500.
\<close>

theorem empty_trim_division_by_zero:
  assumes "audio_file req = Some voice_file" and "filename voice_file \<noteq> []"
    and "from_file voice_file = Inr original_voice"
    and "process_voice L (form_of req) (fst (convert_audio_to_numpy original_voice))
           (frame_rate original_voice) = Inr processed_data"
    and "0 < seg_len (convert_numpy_to_audio processed_data (frame_rate original_voice))"
    and "bg_file req = Some bg" and "filename bg \<noteq> []" and "from_file bg = Inr music_seg"
    and "frame_rate music_seg = frame_rate original_voice"
    and "form_float (py_float L) (form_of req) ''bg_start'' 0 = Inr s"
    and "form_float (py_float L) (form_of req) ''bg_end'' 0 = Inr e"
    and "real (seg_len music_seg) \<le> s * 1000"
  shows "trim_music L (form_of req) music_seg = Inr (music_seg\<lparr>pcm_data := []\<rparr>) \<and>
         loop_to_cover (music_seg\<lparr>pcm_data := []\<rparr>)
           (convert_numpy_to_audio processed_data (frame_rate original_voice)) =
           Inl ZeroDivisionError \<and>
         process_audio L req = Status500 ZeroDivisionError"
proof -
  let ?voice = "convert_numpy_to_audio processed_data (frame_rate original_voice)"
  have trim: "trim_music L (form_of req) music_seg = Inr (music_seg\<lparr>pcm_data := []\<rparr>)"
    using assms(10-12) by (simp add: trim_music_def trim_params_ok cut_selection_past_end)
  have loop: "loop_to_cover (music_seg\<lparr>pcm_data := []\<rparr>) ?voice = Inl ZeroDivisionError"
    using assms(5) by (intro loop_to_cover_empty) (simp_all add: seg_len_def)
  have prep: "prepare_music L (form_of req) ?voice music_seg = Inl ZeroDivisionError"
    using assms(9) by (simp add: prepare_music_def match_frame_rate_def trim loop)
  have "try_body L req voice_file = Inl ZeroDivisionError"
    using assms(3,4,6-8)
    by (simp add: try_body_def convert_audio_to_numpy_def encode_and_mix_def
        mix_background_def prep)
  then show ?thesis
    using assms(1,2) trim loop by (simp add: process_audio_def)
qed

theorem empty_trim_division_by_zero_witness:
  "audio_file past_end_request = Some voice_upload \<and> filename voice_upload \<noteq> [] \<and>
   bg_file past_end_request = Some music_upload \<and> filename music_upload \<noteq> [] \<and>
   from_file music_upload = Inr (mono [1, 2]) \<and>
   form_float (py_float example_lib) (form_of past_end_request) ''bg_start'' 0 = Inr (2 / 1000) \<and>
   real (seg_len (mono [1, 2])) \<le> 2 / 1000 * 1000 \<and>
   process_audio example_lib past_end_request = Status500 ZeroDivisionError"
proof -
  let ?v = "mono [16384, 0, - 16384]"
  let ?pd = "fst (convert_audio_to_numpy ?v)"
  have off: "\<not> enabled (form_of past_end_request) ''enable_nr''"
    "\<not> enabled (form_of past_end_request) ''enable_vintage''"
    "\<not> enabled (form_of past_end_request) ''enable_mic''"
    "\<not> enabled (form_of past_end_request) ''enable_podcast''"
    by (simp_all add: past_end_request_def enabled_def)
  have v: "audio_file past_end_request = Some voice_upload" "filename voice_upload \<noteq> []"
    "from_file voice_upload = Inr ?v"
    by (simp_all add: past_end_request_def voice_upload_def)
  have p: "process_voice example_lib (form_of past_end_request) ?pd (frame_rate ?v) = Inr ?pd"
    using off by (rule process_voice_off)
  have n: "0 < seg_len (convert_numpy_to_audio ?pd (frame_rate ?v))"
    by (simp add: seg_len_def convert_numpy_to_audio_def convert_audio_to_numpy_def
        split_to_mono_def mono_def Let_def)
  have b: "bg_file past_end_request = Some music_upload" "filename music_upload \<noteq> []"
    "from_file music_upload = Inr (mono [1, 2])"
    by (simp_all add: past_end_request_def music_upload_def)
  have r: "frame_rate (mono [1, 2]) = frame_rate ?v"
    by (simp add: mono_def)
  have f: "form_float (py_float example_lib) (form_of past_end_request) ''bg_start'' 0 = Inr (2 / 1000)"
    "form_float (py_float example_lib) (form_of past_end_request) ''bg_end'' 0 = Inr 0"
    by (simp_all add: form_float_def past_end_request_def example_lib_def example_float_def)
  have l: "real (seg_len (mono [1, 2])) \<le> 2 / 1000 * 1000"
    by (simp add: seg_len_def mono_def)
  show ?thesis
    using empty_trim_division_by_zero [OF v p n b r f l] v b f l by simp
qed

section \<open>Fade-out\<close>

lemma fade_params_ok:
  "form_float (py_float L) frm ''bg_fade_start'' 0 = Inr fs \<Longrightarrow>
   form_float (py_float L) frm ''bg_fade_len'' 3 = Inr fl \<Longrightarrow> fade_params L frm = Inr (fs, fl)"
  by (simp add: fade_params_def except_value_type_def)





section \<open>Volume\<close>

lemma powr_ratio_power:
  fixes a b :: nat
  assumes "0 < b"
  shows "(10 powr (real a / real b)) ^ b = (10 :: real) ^ a"
proof -
  have "(10 powr (real a / real b)) ^ b = (10 :: real) powr (real a / real b * real b)"
    by (simp add: powr_power)
  also have "real a / real b * real b = real a" using assms by simp
  also have "(10 :: real) powr real a = 10 ^ a" by (simp add: powr_realpow)
  finally show ?thesis .
qed

lemma log10_lower:
  fixes a b :: nat and x :: real
  assumes "0 < b" "0 < x" "(10 :: real) ^ a < x ^ b"
  shows "real a / real b < log 10 x"
proof -
  have "10 powr (real a / real b) < x"
  proof (rule ccontr)
    assume "\<not> 10 powr (real a / real b) < x"
    then have "x \<le> 10 powr (real a / real b)" by simp
    then have "x ^ b \<le> (10 powr (real a / real b)) ^ b"
      using assms(2) by (intro power_mono) simp_all
    then show False using assms(1,3) by (simp add: powr_ratio_power)
  qed
  then show ?thesis using assms(2) by (simp add: less_log_iff)
qed

lemma log10_upper:
  fixes a b :: nat and x :: real
  assumes "0 < b" "0 < x" "x ^ b < (10 :: real) ^ a"
  shows "log 10 x < real a / real b"
proof -
  have "x < 10 powr (real a / real b)"
  proof (rule ccontr)
    assume "\<not> x < 10 powr (real a / real b)"
    then have "10 powr (real a / real b) \<le> x" by simp
    then have "(10 powr (real a / real b)) ^ b \<le> x ^ b"
      by (intro power_mono) simp_all
    then show False using assms(1,3) by (simp add: powr_ratio_power)
  qed
  then show ?thesis using assms(2) by (simp add: log_less_iff)
qed

lemma log10_2_bounds: "301 / 1000 < log 10 (2 :: real)" "log 10 (2 :: real) < 603 / 2000"
proof -
  have "(10 :: real) ^ 301 < 2 ^ 1000" by simp
  then show "301 / 1000 < log 10 (2 :: real)"
    using log10_lower [of 1000 2 301] by simp
  have "(2 :: real) ^ 2000 < 10 ^ 603" by simp
  then show "log 10 (2 :: real) < 603 / 2000"
    using log10_upper [of 2000 2 603] by simp
qed

lemma gain_db_half:
  "- 603 / 100 < 20 * log 10 (50 / 100 :: real)" "20 * log 10 (50 / 100 :: real) < - 602 / 100"
proof -
  have "log 10 (50 / 100 :: real) = - log 10 2"
    by (simp add: log_divide)
  then show "- 603 / 100 < 20 * log 10 (50 / 100 :: real)"
    "20 * log 10 (50 / 100 :: real) < - 602 / 100"
    using log10_2_bounds by simp_all
qed

lemma volume_nonpositive:
  assumes "form_float (py_float L) frm ''bg_vol'' 20 = Inr p" "p \<le> 0"
  shows "volume L frm music_seg = Inr (apply_gain music_seg (- 100))"
  using assms by (simp add: volume_def)

lemma volume_gain:
  assumes "form_float (py_float L) frm ''bg_vol'' 20 = Inr p" "0 < p" "1 / 2 ^ 1075 < p / 100"
  shows "volume L frm music_seg = Inr (apply_gain music_seg (20 * log 10 (p / 100)))"
proof -
  have q: "fdiv p 100 = p / 100" using assms(2,3) by (simp add: fdiv_def)
  have pos: "\<not> p / 100 \<le> 0" "\<not> p \<le> 0" using assms(2) by simp_all
  show ?thesis
    unfolding volume_def assms(1) and_then_Inr q math_log10_def if_not_P [OF pos(1)]
      if_not_P [OF pos(2)] Let_def
    by (rule refl)
qed

lemma gain_db_full: "20 * log 10 (100 / 100) = (0 :: real)"
  by simp

lemma apply_gain_uniform:
  "pcm_data (apply_gain seg db) = map (audioop_mul (10 powr (db / 20))) (pcm_data seg)"
  by (simp add: apply_gain_def)

lemma volume_underflow:
  assumes "form_float (py_float L) frm ''bg_vol'' 20 = Inr p" "0 < p" "p / 100 \<le> 1 / 2 ^ 1075"
  shows "volume L frm music_seg = Inl (ValueError ''math domain error'')"
proof -
  have "fdiv p 100 = 0" using assms(2,3) by (simp add: fdiv_def)
  then show ?thesis using assms(1,2) by (simp add: volume_def math_log10_def)
qed

lemma trim_to_voice_ok:
  "trim_to_voice music_seg voice =
     Inr (music_seg\<lparr>pcm_data := take (seg_len voice) (pcm_data music_seg)\<rparr>)"
  by (simp add: trim_to_voice_def seg_slice_to)

lemma loop_to_cover_ok:
  assumes "0 < seg_len music_seg"
  shows "\<exists>looped. loop_to_cover music_seg voice = Inr looped"
  using assms by (simp add: loop_to_cover_def true_div_def Let_def)

lemma trim_music_default:
  assumes "frm ''bg_start'' = None" "frm ''bg_end'' = None"
  shows "trim_music L frm music_seg = Inr music_seg"
proof -
  have "trim_params L frm = Inr (0, 0)"
    using assms by (intro trim_params_ok) (simp_all add: form_float_def)
  then show ?thesis by (simp add: trim_music_def cut_selection_def seg_slice_whole)
qed

lemma prepare_music_volume_error:
  assumes "frame_rate music_seg0 = frame_rate voice"
    and "trim_music L frm music_seg0 = Inr music_seg2" and "0 < seg_len music_seg2"
    and "\<And>m. volume L frm m = Inl e"
  shows "prepare_music L frm voice music_seg0 = Inl e"
proof -
  obtain looped where "loop_to_cover music_seg2 voice = Inr looped"
    using loop_to_cover_ok [OF assms(3)] by blast
  then show ?thesis
    using assms(1,2,4) by (simp add: prepare_music_def match_frame_rate_def trim_to_voice_ok)
qed

text \<open>
  Claim C5. The guard \<open>bg_vol_percent <= 0\<close> does not keep every argument of
  \<open>math.log10\<close> positive. For a positive percentage so small that \<open>percent / 100.0\<close>
  rounds to \<open>0.0\<close>, the logarithm raises \<open>ValueError: math domain error\<close>, and the
  request of an otherwise well-formed upload with a background track ends with status
  500. The lemmas above give the rest of the claim: at most 0 percent applies the fixed
  gain of -100 dB, a larger percentage applies \<open>20 * log10(percent / 100)\<close> dB to every
  sample, which is 0 dB at 100 percent and between -6.03 and -6.02 dB at 50 percent.
\<close>

theorem tiny_volume_domain_error:
  assumes "audio_file req = Some voice_file" and "filename voice_file \<noteq> []"
    and "from_file voice_file = Inr original_voice"
    and "process_voice L (form_of req) (fst (convert_audio_to_numpy original_voice))
           (frame_rate original_voice) = Inr processed_data"
    and "bg_file req = Some bg" and "filename bg \<noteq> []" and "from_file bg = Inr music_seg"
    and "frame_rate music_seg = frame_rate original_voice"
    and "trim_music L (form_of req) music_seg = Inr trimmed" and "0 < seg_len trimmed"
    and "form_float (py_float L) (form_of req) ''bg_vol'' 20 = Inr p"
    and "0 < p" and "p / 100 \<le> 1 / 2 ^ 1075"
  shows "volume L (form_of req) m = Inl (ValueError ''math domain error'') \<and>
         process_audio L req = Status500 (ValueError ''math domain error'')"
proof -
  let ?voice = "convert_numpy_to_audio processed_data (frame_rate original_voice)"
  have vol: "volume L (form_of req) m = Inl (ValueError ''math domain error'')" for m
    using assms(11-13) by (rule volume_underflow)
  have "prepare_music L (form_of req) ?voice music_seg = Inl (ValueError ''math domain error'')"
    using assms(8-10) vol by (intro prepare_music_volume_error) simp_all
  then have "try_body L req voice_file = Inl (ValueError ''math domain error'')"
    using assms(3-7)
    by (simp add: try_body_def convert_audio_to_numpy_def encode_and_mix_def mix_background_def)
  then show ?thesis
    using assms(1,2) vol by (simp add: process_audio_def)
qed

theorem tiny_volume_domain_error_witness:
  "audio_file underflow_request = Some voice_upload \<and> filename voice_upload \<noteq> [] \<and>
   bg_file underflow_request = Some music_upload \<and> filename music_upload \<noteq> [] \<and>
   form_float (py_float example_lib) (form_of underflow_request) ''bg_vol'' 20 = Inr (20 / 2 ^ 1074) \<and>
   (0 :: real) < 20 / 2 ^ 1074 \<and> (20 / 2 ^ 1074 :: real) / 100 \<le> 1 / 2 ^ 1075 \<and>
   process_audio example_lib underflow_request = Status500 (ValueError ''math domain error'')"
proof -
  let ?v = "mono [16384, 0, - 16384]"
  let ?pd = "fst (convert_audio_to_numpy ?v)"
  have off: "\<not> enabled (form_of underflow_request) ''enable_nr''"
    "\<not> enabled (form_of underflow_request) ''enable_vintage''"
    "\<not> enabled (form_of underflow_request) ''enable_mic''"
    "\<not> enabled (form_of underflow_request) ''enable_podcast''"
    by (simp_all add: underflow_request_def enabled_def)
  have v: "audio_file underflow_request = Some voice_upload" "filename voice_upload \<noteq> []"
    "from_file voice_upload = Inr ?v"
    by (simp_all add: underflow_request_def voice_upload_def)
  have p: "process_voice example_lib (form_of underflow_request) ?pd (frame_rate ?v) = Inr ?pd"
    using off by (rule process_voice_off)
  have b: "bg_file underflow_request = Some music_upload" "filename music_upload \<noteq> []"
    "from_file music_upload = Inr (mono [1, 2])"
    by (simp_all add: underflow_request_def music_upload_def)
  have r: "frame_rate (mono [1, 2]) = frame_rate ?v"
    by (simp add: mono_def)
  have t: "trim_music example_lib (form_of underflow_request) (mono [1, 2]) = Inr (mono [1, 2])"
    by (rule trim_music_default) (simp_all add: underflow_request_def)
  have l: "0 < seg_len (mono [1, 2])"
    by (simp add: seg_len_def mono_def)
  have f: "form_float (py_float example_lib) (form_of underflow_request) ''bg_vol'' 20 =
      Inr (20 / 2 ^ 1074)"
    by (simp add: form_float_def underflow_request_def example_lib_def example_float_def)
  have n: "(0 :: real) < 20 / 2 ^ 1074" "(20 / 2 ^ 1074 :: real) / 100 \<le> 1 / 2 ^ 1075"
    by simp_all
  show ?thesis
    using tiny_volume_domain_error [OF v p b r t l f n] v b f n by simp
qed

section \<open>Encoding and overlay\<close>

lemma sint_int16:
  "- 32768 \<le> k \<Longrightarrow> k \<le> 32767 \<Longrightarrow> sint (word_of_int k :: sample) = k"
  by (simp add: sint_sbintrunc' signed_take_bit_int_eq_self)

lemma np_clip_range: "- 1 \<le> np_clip x" "np_clip x \<le> 1"
  by (simp_all add: np_clip_def)

lemma py_int_scaled_range:
  assumes "- 1 \<le> y" "y \<le> 1"
  shows "- 32767 \<le> py_int (y * 32767)" "py_int (y * 32767) \<le> 32767"
proof -
  have "- 32767 \<le> y * 32767" "y * 32767 \<le> 32767" using assms by simp_all
  then show "- 32767 \<le> py_int (y * 32767)" "py_int (y * 32767) \<le> 32767"
    by (simp_all add: py_int_def le_floor_iff floor_le_iff le_ceiling_iff ceiling_le_iff)
qed

lemma encode_sample_exact:
  "sint (astype_int16 (np_clip x * 32767)) = py_int (np_clip x * 32767)"
  unfolding astype_int16_def
  using py_int_scaled_range [OF np_clip_range, of x] by (intro sint_int16) simp_all

lemma length_transpose_flatten:
  "length left = length right \<Longrightarrow> length (transpose_flatten left right) = 2 * length left"
  by (induction left right rule: list_induct2) (simp_all add: transpose_flatten_def)

lemma nth_transpose_flatten:
  "length left = length right \<Longrightarrow> i < length left \<Longrightarrow>
   transpose_flatten left right ! (2 * i) = left ! i \<and>
   transpose_flatten left right ! (2 * i + 1) = right ! i"
proof (induction left right arbitrary: i rule: list_induct2)
  case Nil
  then show ?case by simp
next
  case (Cons x xs y ys)
  show ?case
  proof (cases i)
    case 0
    then show ?thesis by (simp add: transpose_flatten_def)
  next
    case (Suc j)
    with Cons.prems have "j < length xs" by simp
    from Cons.IH [OF this] Suc show ?thesis by (simp add: transpose_flatten_def)
  qed
qed

lemma convert_stereo:
  "convert_numpy_to_audio [left, right] sample_rate =
     \<lparr>pcm_data = transpose_flatten (map (\<lambda>x. astype_int16 (np_clip x * 32767)) left)
                                    (map (\<lambda>x. astype_int16 (np_clip x * 32767)) right),
      sample_width = 2, frame_rate = sample_rate, channels = 2\<rparr>"
  by (simp add: convert_numpy_to_audio_def Let_def comp_def)

lemma convert_mono:
  "convert_numpy_to_audio [xs] sample_rate =
     \<lparr>pcm_data = map (\<lambda>x. astype_int16 (np_clip x * 32767)) xs,
      sample_width = 2, frame_rate = sample_rate, channels = 1\<rparr>"
  by (simp add: convert_numpy_to_audio_def Let_def comp_def)

lemma encode_and_mix_no_bg:
  "bg_file req = None \<Longrightarrow>
   encode_and_mix L req processed_data sample_rate =
     Inr (convert_numpy_to_audio processed_data sample_rate)"
  by (simp add: encode_and_mix_def)

lemma encode_and_mix_bg:
  "bg_file req = Some bg \<Longrightarrow> filename bg \<noteq> [] \<Longrightarrow> from_file bg = Inr music_seg \<Longrightarrow>
   encode_and_mix L req processed_data sample_rate =
     and_then (prepare_music L (form_of req)
                 (convert_numpy_to_audio processed_data sample_rate) music_seg)
       (\<lambda>prepared. Inr (overlay (convert_numpy_to_audio processed_data sample_rate) prepared))"
  by (simp add: encode_and_mix_def mix_background_def Let_def)


lemma fbound_int: "- 32768 \<le> k \<Longrightarrow> k \<le> 32767 \<Longrightarrow> fbound (real_of_int k) = k"
  by (simp add: fbound_def)

lemma audioop_mul_one: "audioop_mul 1 s = s"
proof -
  have "- 32768 \<le> sint s" "sint s \<le> 32767"
    using sint_ge [of s] sint_lt [of s] by simp_all
  then have h: "fbound (real_of_int (sint s)) = sint s"
    by (rule fbound_int)
  show ?thesis
    unfolding audioop_mul_def mult_1_right h by simp
qed

lemma apply_gain_zero: "apply_gain seg 0 = seg"
proof -
  have "audioop_mul 1 = (\<lambda>s. s)"
    by (rule ext) (rule audioop_mul_one)
  then show ?thesis by (simp add: apply_gain_def)
qed

lemma fade_music_default:
  assumes "frm ''bg_fade_start'' = None" "frm ''bg_fade_len'' = None"
  shows "fade_music L frm music_seg = Inr music_seg"
proof -
  have "fade_params L frm = Inr (0, 3)"
    using assms by (intro fade_params_ok) (simp_all add: form_float_def)
  then show ?thesis by (simp add: fade_music_def fade_out_logic_def)
qed

lemma loop_to_cover_long:
  "\<not> seg_len music_seg < seg_len voice \<Longrightarrow> loop_to_cover music_seg voice = Inr music_seg"
  by (simp add: loop_to_cover_def)




lemma prepare_music_full_volume:
  "prepare_music example_lib (form_of full_volume_request)
     (convert_numpy_to_audio [[3 / 2]] 1000) (mono [- 16384]) = Inr (mono [- 16384])"
proof -
  let ?frm = "form_of full_volume_request"
  let ?voice = "convert_numpy_to_audio [[3 / 2]] 1000"
  have rate: "match_frame_rate example_lib (mono [- 16384]) ?voice = Inr (mono [- 16384])"
    by (simp add: match_frame_rate_def mono_def)
  have trim: "trim_music example_lib ?frm (mono [- 16384]) = Inr (mono [- 16384])"
    by (rule trim_music_default) (simp_all add: full_volume_request_def)
  have len: "seg_len ?voice = 1" "seg_len (mono [- 16384]) = 1"
    by (simp_all add: seg_len_def convert_mono mono_def)
  have loop: "loop_to_cover (mono [- 16384]) ?voice = Inr (mono [- 16384])"
    by (rule loop_to_cover_long) (simp add: len)
  have cut: "trim_to_voice (mono [- 16384]) ?voice = Inr (mono [- 16384])"
    by (simp add: trim_to_voice_ok len mono_def)
  have p: "form_float (py_float example_lib) ?frm ''bg_vol'' 20 = Inr 100"
    by (simp add: form_float_def full_volume_request_def example_lib_def example_float_def)
  have "volume example_lib ?frm (mono [- 16384]) =
      Inr (apply_gain (mono [- 16384]) (20 * log 10 (100 / 100)))"
    using p by (rule volume_gain) simp_all
  then have vol: "volume example_lib ?frm (mono [- 16384]) = Inr (mono [- 16384])"
    by (simp add: apply_gain_zero)
  have fade: "fade_music example_lib ?frm (mono [- 16384]) = Inr (mono [- 16384])"
    by (rule fade_music_default) (simp_all add: full_volume_request_def)
  show ?thesis
    by (simp add: prepare_music_def rate trim loop cut vol fade)
qed

text \<open>
  Claim C8, as the code has it. Encoding clips every float sample to \<open>[-1, 1]\<close> before it
  scales by 32767 and truncates to a 16-bit integer, so the conversion never wraps and
  the samples lie between -32767 and 32767; one row is written out as it is, two rows
  are interleaved frame by frame, left before right. The clamp is applied when the
  processed voice is converted to PCM, before the background is mixed in: without a
  background file the clamped voice is the final output, and with one the prepared music
  is overlaid on the voice that was already clamped.
\<close>

theorem encode_clamp_before_mix:
  "- 1 \<le> np_clip x \<and> np_clip x \<le> 1 \<and>
   sint (astype_int16 (np_clip x * 32767)) = py_int (np_clip x * 32767) \<and>
   - 32767 \<le> sint (astype_int16 (np_clip x * 32767)) \<and>
   sint (astype_int16 (np_clip x * 32767)) \<le> 32767 \<and>
   pcm_data (convert_numpy_to_audio [xs] sample_rate) =
     map (\<lambda>x. astype_int16 (np_clip x * 32767)) xs \<and>
   channels (convert_numpy_to_audio [xs] sample_rate) = 1 \<and>
   channels (convert_numpy_to_audio [left, right] sample_rate) = 2 \<and>
   (length left = length right \<and> i < length left \<longrightarrow>
      length (pcm_data (convert_numpy_to_audio [left, right] sample_rate)) = 2 * length left \<and>
      pcm_data (convert_numpy_to_audio [left, right] sample_rate) ! (2 * i) =
        astype_int16 (np_clip (left ! i) * 32767) \<and>
      pcm_data (convert_numpy_to_audio [left, right] sample_rate) ! (2 * i + 1) =
        astype_int16 (np_clip (right ! i) * 32767)) \<and>
   (bg_file req = None \<longrightarrow>
      encode_and_mix L req processed_data sample_rate =
        Inr (convert_numpy_to_audio processed_data sample_rate)) \<and>
   (bg_file req = Some bg \<and> filename bg \<noteq> [] \<and> from_file bg = Inr music_seg \<longrightarrow>
      encode_and_mix L req processed_data sample_rate =
        and_then (prepare_music L (form_of req)
                    (convert_numpy_to_audio processed_data sample_rate) music_seg)
          (\<lambda>prepared.
             Inr (overlay (convert_numpy_to_audio processed_data sample_rate) prepared)))"
proof -
  let ?enc = "\<lambda>x. astype_int16 (np_clip x * 32767)"
  have range: "- 32767 \<le> sint (?enc x)" "sint (?enc x) \<le> 32767"
    using py_int_scaled_range [OF np_clip_range, of x] by (simp_all add: encode_sample_exact)
  have stereo: "length (pcm_data (convert_numpy_to_audio [left, right] sample_rate)) =
        2 * length left \<and>
      pcm_data (convert_numpy_to_audio [left, right] sample_rate) ! (2 * i) = ?enc (left ! i) \<and>
      pcm_data (convert_numpy_to_audio [left, right] sample_rate) ! (2 * i + 1) = ?enc (right ! i)"
    if "length left = length right \<and> i < length left"
  proof -
    have l: "length (map ?enc left) = length (map ?enc right)" "i < length (map ?enc left)"
      using that by simp_all
    show ?thesis
      using length_transpose_flatten [OF l(1)] nth_transpose_flatten [OF l] that
      by (simp add: convert_stereo)
  qed
  show ?thesis
    using np_clip_range [of x] encode_sample_exact [of x] range stereo
      encode_and_mix_no_bg [of req L processed_data sample_rate]
      encode_and_mix_bg [of req bg music_seg L processed_data sample_rate]
    by (simp add: convert_mono convert_stereo)
qed

theorem encode_clamp_before_mix_witness:
  "length [1 / 2, 2 :: real] = length [- 3, 0 :: real] \<and> (1 :: nat) < length [1 / 2, 2 :: real] \<and>
   pcm_data (convert_numpy_to_audio [[1 / 2, 2], [- 3, 0]] 1000) = [16383, - 32767, 32767, 0] \<and>
   bg_file plain_request = None \<and>
   encode_and_mix example_lib plain_request [[3 / 2]] 1000 = Inr (mono [32767]) \<and>
   bg_file full_volume_request = Some loud_music_upload \<and> filename loud_music_upload \<noteq> [] \<and>
   from_file loud_music_upload = Inr (mono [- 16384]) \<and>
   encode_and_mix example_lib full_volume_request [[3 / 2]] 1000 =
     Inr (overlay (mono [32767]) (mono [- 16384]))"
proof -
  have bg: "bg_file full_volume_request = Some loud_music_upload"
    "filename loud_music_upload \<noteq> []" "from_file loud_music_upload = Inr (mono [- 16384])"
    by (simp_all add: full_volume_request_def loud_music_upload_def)
  have none: "bg_file plain_request = None"
    by (simp add: plain_request_def)
  have voice: "convert_numpy_to_audio [[3 / 2]] 1000 = mono [32767]"
    by (simp add: convert_mono mono_def np_clip_def astype_int16_def py_int_def)
  have stereo: "pcm_data (convert_numpy_to_audio [[1 / 2, 2], [- 3, 0]] 1000) =
      [16383, - 32767, 32767, 0]"
    by (simp add: convert_stereo transpose_flatten_def np_clip_def astype_int16_def py_int_def)
  note t = encode_clamp_before_mix [where req = plain_request and L = example_lib
      and processed_data = "[[3 / 2]]" and sample_rate = 1000]
  note u = encode_clamp_before_mix [where req = full_volume_request and L = example_lib
      and processed_data = "[[3 / 2]]" and sample_rate = 1000 and bg = loud_music_upload
      and music_seg = "mono [- 16384]"]
  have "encode_and_mix example_lib plain_request [[3 / 2]] 1000 =
      Inr (convert_numpy_to_audio [[3 / 2]] 1000)"
    using t none by blast
  then have a: "encode_and_mix example_lib plain_request [[3 / 2]] 1000 = Inr (mono [32767])"
    by (simp only: voice)
  have "encode_and_mix example_lib full_volume_request [[3 / 2]] 1000 =
      and_then (prepare_music example_lib (form_of full_volume_request)
                  (convert_numpy_to_audio [[3 / 2]] 1000) (mono [- 16384]))
        (\<lambda>prepared. Inr (overlay (convert_numpy_to_audio [[3 / 2]] 1000) prepared))"
    using u bg by blast
  then have "encode_and_mix example_lib full_volume_request [[3 / 2]] 1000 =
      Inr (overlay (convert_numpy_to_audio [[3 / 2]] 1000) (mono [- 16384]))"
    by (simp only: prepare_music_full_volume and_then_Inr)
  then have b: "encode_and_mix example_lib full_volume_request [[3 / 2]] 1000 =
      Inr (overlay (mono [32767]) (mono [- 16384]))"
    by (simp only: voice)
  show ?thesis using a b bg none stereo by simp
qed

text \<open>
  The clamp is not the final one. A voice sample of 1.5 leaves the effects and meets a
  music sample of -16384, which is -0.5 of full scale. Clamping once, after the mix,
  would encode the sum 1.0 as 32766; the program clamps the voice to 32767 first and
  then adds the music, which gives 16383.
\<close>

theorem clamp_not_final_counterexample:
  "encode_and_mix example_lib full_volume_request [[3 / 2]] 1000 = Inr (mono [16383]) \<and>
   mix_then_encode [3 / 2] [- 16384] 1000 = mono [32766] \<and>
   encode_and_mix example_lib full_volume_request [[3 / 2]] 1000 \<noteq>
     Inr (mix_then_encode [3 / 2] [- 16384] 1000)"
proof -
  have bg: "bg_file full_volume_request = Some loud_music_upload"
    "filename loud_music_upload \<noteq> []" "from_file loud_music_upload = Inr (mono [- 16384])"
    by (simp_all add: full_volume_request_def loud_music_upload_def)
  have voice: "convert_numpy_to_audio [[3 / 2]] 1000 = mono [32767]"
    by (simp add: convert_mono mono_def np_clip_def astype_int16_def py_int_def)
  have "encode_and_mix example_lib full_volume_request [[3 / 2]] 1000 =
      Inr (overlay (convert_numpy_to_audio [[3 / 2]] 1000) (mono [- 16384]))"
    by (simp only: encode_and_mix_bg [OF bg] prepare_music_full_volume and_then_Inr)
  then have code:
    "encode_and_mix example_lib full_volume_request [[3 / 2]] 1000 = Inr (mono [16383])"
    by (simp add: voice overlay_def mono_def audioop_add_def)
  have spec: "mix_then_encode [3 / 2] [- 16384] 1000 = mono [32766]"
    by (simp add: mix_then_encode_def convert_mono mono_def np_clip_def astype_int16_def
        py_int_def)
  have "mono [16383] \<noteq> mono [32766]"
    by (simp add: mono_def)
  with code spec show ?thesis by simp
qed




end
